theory Spec2Isabelle
  imports Complex_Main "HOL-Library.Sublist" "HOL-Library.AList"
begin

section \<open>Python values used by the trading system\<close>

text \<open>
  The source is \<^verbatim>\<open>quant-agents/personal_trading_system.py\<close>. Python floats are
  modelled by the reals (rounding is not modelled); where the source can produce the
  float NaN, the value is a \<open>pyfloat\<close>. An exception is a value \<open>Exception msg\<close>, and a
  function that can raise returns \<open>error + 'a\<close>.
\<close>

datatype error = Exception string

fun str :: "error \<Rightarrow> string" where
  "str (Exception msg) = msg"

datatype pyfloat = Float real | NaN

text \<open>Python's \<^verbatim>\<open>int(x)\<close> on a float truncates towards zero.\<close>

definition py_int :: "real \<Rightarrow> int" where
  "py_int x = (if 0 \<le> x then \<lfloor>x\<rfloor> else \<lceil>x\<rceil>)"

section \<open>AlphaSignalGenerator\<close>

subsection \<open>Technical indicators\<close>

text \<open>
  A pandas Series of closing prices is a list of reals. \<open>lastn n xs\<close> is the window of
  the last \<open>n\<close> entries, which is what \<^verbatim>\<open>rolling(window=n)...iloc[-1]\<close> reads.
  \<^verbatim>\<open>prices.diff()\<close> has NaN in its first place; \<^verbatim>\<open>delta.where(delta > 0, 0)\<close> turns
  that NaN into 0, as the comparison with NaN is false.
\<close>

definition lastn :: "nat \<Rightarrow> 'a list \<Rightarrow> 'a list" where
  "lastn n xs = drop (length xs - n) xs"

definition mean :: "real list \<Rightarrow> real" where
  "mean xs = sum_list xs / real (length xs)"

definition diff :: "real list \<Rightarrow> real list" where
  "diff xs = map (\<lambda>(a, b). b - a) (zip xs (tl xs))"

text \<open>
  \<^verbatim>\<open>
  def calculate_rsi(self, prices, period=14):
      if len(prices) < period + 1:
          return 50.0
      delta = prices.diff()
      gain = (delta.where(delta > 0, 0)).rolling(window=period).mean()
      loss = (-delta.where(delta < 0, 0)).rolling(window=period).mean()
      rs = gain / loss
      rsi = 100 - (100 / (1 + rs))
      return rsi.iloc[-1] if not np.isnan(rsi.iloc[-1]) else 50.0
  \<close>
  With a zero loss, \<open>gain / loss\<close> is the float infinity for a positive gain (and the
  result is 100) and NaN for a zero gain. A window of length 0 has the mean NaN.
\<close>

definition rsi_last :: "real list \<Rightarrow> nat \<Rightarrow> pyfloat" where
  "rsi_last prices period =
     (let delta = diff prices;
          gains = 0 # map (\<lambda>d. if d > 0 then d else 0) delta;
          losses = 0 # map (\<lambda>d. - (if d < 0 then d else 0)) delta;
          gain = mean (lastn period gains);
          loss = mean (lastn period losses)
      in if period = 0 then NaN
         else if loss = 0 then (if gain = 0 then NaN else Float 100)
         else Float (100 - (100 / (1 + gain / loss))))"

definition calculate_rsi :: "real list \<Rightarrow> nat \<Rightarrow> pyfloat" where
  "calculate_rsi prices period =
     (if length prices < period + 1 then Float 50.0
      else case rsi_last prices period of NaN \<Rightarrow> Float 50.0 | Float v \<Rightarrow> Float v)"

text \<open>
  \<^verbatim>\<open>
  def calculate_macd_signal(self, prices):
      if len(prices) < 26:
          return 0.0
      exp1 = prices.ewm(span=12, adjust=False).mean()
      exp2 = prices.ewm(span=26, adjust=False).mean()
      macd = exp1 - exp2
      signal = macd.ewm(span=9, adjust=False).mean()
      return (macd - signal).iloc[-1]
  \<close>
  \<^verbatim>\<open>ewm(span=s, adjust=False).mean()\<close> is the recursion \<open>y\<^sub>0 = x\<^sub>0\<close>,
  \<open>y\<^sub>t = (1 - \<alpha>) y\<^sub>t\<^sub>-\<^sub>1 + \<alpha> x\<^sub>t\<close> with \<open>\<alpha> = 2 / (s + 1)\<close>.
\<close>

fun ewm_from :: "real \<Rightarrow> real \<Rightarrow> real list \<Rightarrow> real list" where
  "ewm_from \<alpha> y [] = []"
| "ewm_from \<alpha> y (x # xs) = (let y' = (1 - \<alpha>) * y + \<alpha> * x in y' # ewm_from \<alpha> y' xs)"

fun ewm_mean :: "nat \<Rightarrow> real list \<Rightarrow> real list" where
  "ewm_mean sp [] = []"
| "ewm_mean sp (x # xs) = x # ewm_from (2 / (real sp + 1)) x xs"

definition calculate_macd_signal :: "real list \<Rightarrow> pyfloat" where
  "calculate_macd_signal prices =
     (if length prices < 26 then Float 0.0
      else
        let exp1 = ewm_mean 12 prices;
            exp2 = ewm_mean 26 prices;
            macd = map (\<lambda>(a, b). a - b) (zip exp1 exp2);
            signal = ewm_mean 9 macd
        in Float (last macd - last signal))"

text \<open>
  \<^verbatim>\<open>
  def calculate_bollinger_position(self, prices, period=20):
      if len(prices) < period:
          return 0.5
      sma = prices.rolling(window=period).mean()
      std = prices.rolling(window=period).std()
      upper_band = sma + (std * 2)
      lower_band = sma - (std * 2)
      current_price = prices.iloc[-1]
      position = (current_price - lower_band.iloc[-1]) / (upper_band.iloc[-1] - lower_band.iloc[-1])
      return np.clip(position, 0, 1)
  \<close>
  The rolling standard deviation is the sample one (divisor \<open>period - 1\<close>), NaN for a
  window of fewer than two entries. The division is a numpy one: by zero it gives NaN
  or an infinity, which \<^verbatim>\<open>np.clip\<close> leaves as NaN or clips to a bound.
  \<^verbatim>\<open>prices.iloc[-1]\<close> raises IndexError on an empty series.
\<close>

definition rolling_std_last :: "nat \<Rightarrow> real list \<Rightarrow> real" where
  "rolling_std_last period xs =
     (let w = lastn period xs; m = mean w
      in sqrt (sum_list (map (\<lambda>x. (x - m)\<^sup>2) w) / (real period - 1)))"

definition clip :: "real \<Rightarrow> real \<Rightarrow> real \<Rightarrow> real" where
  "clip x lo hi = min (max x lo) hi"

definition calculate_bollinger_position :: "real list \<Rightarrow> nat \<Rightarrow> error + pyfloat" where
  "calculate_bollinger_position prices period =
     (if length prices < period then Inr (Float 0.5)
      else if prices = [] then Inl (Exception ''single positional indexer is out-of-bounds'')
      else if period < 2 then Inr NaN
      else
        let sma = mean (lastn period prices);
            std = rolling_std_last period prices;
            upper_band = sma + (std * 2);
            lower_band = sma - (std * 2);
            current_price = last prices;
            num = current_price - lower_band;
            den = upper_band - lower_band
        in if den = 0 then
             (if num = 0 then Inr NaN else if num > 0 then Inr (Float 1) else Inr (Float 0))
           else Inr (Float (clip (num / den) 0 1)))"

subsection \<open>The scoring function\<close>

text \<open>
  A feature dictionary maps a feature name to a float. \<^verbatim>\<open>d.get(k, default)\<close> is
  \<open>get_feature\<close>; a comparison with NaN is false.
\<close>

type_synonym features = "string \<rightharpoonup> pyfloat"

definition get_feature :: "features \<Rightarrow> string \<Rightarrow> real \<Rightarrow> pyfloat" where
  "get_feature d k dflt = (case d k of None \<Rightarrow> Float dflt | Some v \<Rightarrow> v)"

fun lt :: "pyfloat \<Rightarrow> real \<Rightarrow> bool" where
  "lt (Float x) y = (x < y)"
| "lt NaN y = False"

fun gt :: "pyfloat \<Rightarrow> real \<Rightarrow> bool" where
  "gt (Float x) y = (x > y)"
| "gt NaN y = False"

record prediction =
  direction :: int
  confidence :: real
  expected_return :: real
  holding_period :: string

text \<open>
  \<^verbatim>\<open>
  def ml_predict(self, micro_features, tech_signals):
      score = 0
      confidence = 0.5
      if micro_features.get('kyle_lambda', 0) < 0:
          score += 1
          confidence += 0.1
      if micro_features.get('vpin', 0) < 0.3:
          score += 1
          confidence += 0.1
      if tech_signals.get('rsi', 50) < 30:
          score += 2
          confidence += 0.2
      elif tech_signals.get('rsi', 50) > 70:
          score -= 2
          confidence += 0.2
      if tech_signals.get('macd_signal', 0) > 0:
          score += 1
          confidence += 0.1
      if score > 1: direction = 1
      elif score < -1: direction = -1
      else: direction = 0
      return {'direction': direction,
              'confidence': min(confidence, 0.9),
              'expected_return': direction * confidence * 0.02,
              'holding_period': '1D' if confidence > 0.7 else '4H'}
  \<close>
  The two local variables are threaded as a pair \<open>(score, confidence)\<close>.
\<close>

definition ml_predict :: "features \<Rightarrow> features \<Rightarrow> prediction" where
  "ml_predict micro_features tech_signals =
     (let s0 = (0 :: int, 0.5 :: real);
          s1 = (if lt (get_feature micro_features ''kyle_lambda'' 0) 0
                then (fst s0 + 1, snd s0 + 0.1) else s0);
          s2 = (if lt (get_feature micro_features ''vpin'' 0) 0.3
                then (fst s1 + 1, snd s1 + 0.1) else s1);
          s3 = (if lt (get_feature tech_signals ''rsi'' 50) 30
                then (fst s2 + 2, snd s2 + 0.2)
                else if gt (get_feature tech_signals ''rsi'' 50) 70
                then (fst s2 - 2, snd s2 + 0.2) else s2);
          s4 = (if gt (get_feature tech_signals ''macd_signal'' 0) 0
                then (fst s3 + 1, snd s3 + 0.1) else s3);
          score = fst s4;
          confidence = snd s4;
          direction = (if score > 1 then 1 else if score < -1 then -1 else 0)
      in \<lparr> direction = direction,
           confidence = min confidence 0.9,
           expected_return = real_of_int direction * confidence * 0.02,
           holding_period = (if confidence > 0.7 then ''1D'' else ''4H'') \<rparr>)"

subsection \<open>Signal generation\<close>

text \<open>
  \<^verbatim>\<open>
  async def generate_signals(self, universe, timeframe="1Min"):
      signals = {}
      for symbol in universe:
          try:
              micro_features = await self.calculate_microstructure_alpha(symbol)
              tech_signals = await self.calculate_technical_signals(symbol)
              ml_signal = self.ml_predict(micro_features, tech_signals)
              combined_signal = {'symbol': symbol, 'direction': ml_signal['direction'],
                  'confidence': ml_signal['confidence'],
                  'expected_return': ml_signal['expected_return'],
                  'holding_period': ml_signal['holding_period'],
                  'features': {'microstructure': micro_features, 'technical': tech_signals},
                  'timestamp': datetime.now().isoformat()}
              signals[symbol] = combined_signal
              self.signals_history.append(combined_signal)
          except Exception as e:
              logger.error(...)
      return signals
  \<close>
  The two feature computations read the market-data client and are parameters here:
  for a symbol each gives a feature dictionary or raises. The result dictionary is an
  association list in insertion order; \<open>signals_history\<close> is a
  \<^verbatim>\<open>deque(maxlen=1000)\<close>, which drops its oldest entry when full.
\<close>

record signal = prediction +
  symbol :: string
  microstructure :: features
  technical :: features
  timestamp :: int

definition deque_append :: "nat \<Rightarrow> 'a list \<Rightarrow> 'a \<Rightarrow> 'a list" where
  "deque_append maxlen xs x = (if length xs < maxlen then xs @ [x] else tl (xs @ [x]))"

definition combined_signal ::
  "string \<Rightarrow> features \<Rightarrow> features \<Rightarrow> int \<Rightarrow> signal" where
  "combined_signal smb micro_features tech_signals now =
     (let ml_signal = ml_predict micro_features tech_signals
      in \<lparr> direction = direction ml_signal,
           confidence = confidence ml_signal,
           expected_return = expected_return ml_signal,
           holding_period = holding_period ml_signal,
           symbol = smb,
           microstructure = micro_features,
           technical = tech_signals,
           timestamp = now \<rparr>)"

fun generate_signals ::
  "(string \<Rightarrow> error + features) \<Rightarrow> (string \<Rightarrow> error + features) \<Rightarrow> int \<Rightarrow>
   string list \<Rightarrow> (string \<times> signal) list \<times> signal list \<Rightarrow>
   (string \<times> signal) list \<times> signal list" where
  "generate_signals micro tech now [] (signals, history) = (signals, history)"
| "generate_signals micro tech now (smb # universe) (signals, history) =
     (case micro smb of
        Inl e \<Rightarrow> generate_signals micro tech now universe (signals, history)
      | Inr micro_features \<Rightarrow>
          (case tech smb of
             Inl e \<Rightarrow> generate_signals micro tech now universe (signals, history)
           | Inr tech_signals \<Rightarrow>
               let sig = combined_signal smb micro_features tech_signals now
               in generate_signals micro tech now universe
                    (AList.update smb sig signals, deque_append 1000 history sig)))"

section \<open>The brokerage port\<close>

text \<open>
  The trading client is a record of what its calls answer: a value or an exception.
  Numeric fields of account and position objects arrive as optional strings and are
  read with \<^verbatim>\<open>float(...)\<close>, which raises on \<^verbatim>\<open>None\<close>; they are \<open>real option\<close> here.
\<close>

record account =
  equity :: "real option"
  cash :: "real option"
  buying_power :: "real option"
  pattern_day_trader :: bool

record position =
  position_symbol :: string
  market_value :: "real option"
  current_price :: "real option"

datatype order_request =
    MarketOrderRequest string int string string
  | LimitOrderRequest string int string string real

record broker =
  get_account :: "error + account"
  get_all_positions :: "error + position list"
  get_position :: "string \<Rightarrow> error + position"
  submit_order :: "order_request \<Rightarrow> error + string"

definition py_float :: "real option \<Rightarrow> error + real" where
  "py_float v = (case v of None \<Rightarrow> Inl (Exception ''float() argument must be a string or a real number'')
                 | Some x \<Rightarrow> Inr x)"

section \<open>RiskManagementEngine\<close>

subsection \<open>Kelly sizing\<close>

text \<open>
  \<^verbatim>\<open>
  def calculate_kelly_fraction(self, expected_return, win_probability):
      if expected_return <= 0 or win_probability <= 0.5:
          return 0.0
      loss_probability = 1 - win_probability
      win_loss_ratio = 2.0
      kelly = win_probability - (loss_probability / win_loss_ratio)
      return max(0, min(kelly * 0.25, 0.1))
  \<close>
\<close>

definition calculate_kelly_fraction :: "real \<Rightarrow> real \<Rightarrow> real" where
  "calculate_kelly_fraction expected_return' win_probability =
     (if expected_return' \<le> 0 \<or> win_probability \<le> 0.5 then 0.0
      else
        let loss_probability = 1 - win_probability;
            win_loss_ratio = 2.0;
            kelly = win_probability - (loss_probability / win_loss_ratio)
        in max 0 (min (kelly * 0.25) 0.1))"

subsection \<open>Current price\<close>

text \<open>
  \<^verbatim>\<open>
  def get_current_price(self, symbol):
      try:
          position = self.trading_client.get_position(symbol)
          return float(position.current_price)
      except:
          # Fallback to last trade price
          return 100.0  # Default for now
  \<close>
\<close>

definition risk_get_current_price :: "broker \<Rightarrow> string \<Rightarrow> real" where
  "risk_get_current_price b smb =
     (case get_position b smb of
        Inl e \<Rightarrow> 100.0
      | Inr position \<Rightarrow>
          (case py_float (current_price position) of Inl e \<Rightarrow> 100.0 | Inr v \<Rightarrow> v))"

subsection \<open>Portfolio risk\<close>

text \<open>
  \<^verbatim>\<open>
  async def calculate_portfolio_risk(self, portfolio):
      positions = self.trading_client.get_all_positions()
      if not positions:
          return {'var_95': 0, 'var_99': 0, 'expected_shortfall': 0,
                  'current_leverage': 0, 'concentration_risk': 0, 'correlation_risk': 0}
      position_values = {}
      total_value = 0
      for position in positions:
          value = float(position.market_value)
          position_values[position.symbol] = value
          total_value += abs(value)
      if total_value > 0:
          weights = [abs(value) / total_value for value in position_values.values()]
          concentration_risk = sum(w**2 for w in weights)
      else:
          concentration_risk = 0
      portfolio_volatility = 0.15
      daily_vol = portfolio_volatility / np.sqrt(252)
      var_95 = total_value * 1.645 * daily_vol
      var_99 = total_value * 2.326 * daily_vol
      expected_shortfall = total_value * 2.665 * daily_vol
      account = self.trading_client.get_account()
      leverage = total_value / float(account.equity)
      return {...}
  \<close>
  The argument \<open>portfolio\<close> is not read.
\<close>

record risk_metrics =
  var_95 :: real
  var_99 :: real
  expected_shortfall :: real
  current_leverage :: real
  concentration_risk :: real
  correlation_risk :: real

fun position_loop ::
  "position list \<Rightarrow> (string \<times> real) list \<times> real \<Rightarrow> error + (string \<times> real) list \<times> real" where
  "position_loop [] (position_values, total_value) = Inr (position_values, total_value)"
| "position_loop (p # ps) (position_values, total_value) =
     (case py_float (market_value p) of
        Inl e \<Rightarrow> Inl e
      | Inr v \<Rightarrow> position_loop ps
          (AList.update (position_symbol p) v position_values, total_value + \<bar>v\<bar>))"

definition calculate_portfolio_risk :: "broker \<Rightarrow> 'p \<Rightarrow> error + risk_metrics" where
  "calculate_portfolio_risk b portfolio =
     (case get_all_positions b of
        Inl e \<Rightarrow> Inl e
      | Inr positions \<Rightarrow>
          if positions = [] then
            Inr \<lparr> var_95 = 0, var_99 = 0, expected_shortfall = 0, current_leverage = 0,
                  concentration_risk = 0, correlation_risk = 0 \<rparr>
          else
            (case position_loop positions ([], 0) of
               Inl e \<Rightarrow> Inl e
             | Inr (position_values, total_value) \<Rightarrow>
                 let concentration =
                       (if total_value > 0
                        then sum_list (map (\<lambda>(k, v). (\<bar>v\<bar> / total_value)\<^sup>2) position_values)
                        else 0);
                     portfolio_volatility = 0.15;
                     daily_vol = portfolio_volatility / sqrt 252
                 in (case get_account b of
                       Inl e \<Rightarrow> Inl e
                     | Inr acct \<Rightarrow>
                         (case py_float (equity acct) of
                            Inl e \<Rightarrow> Inl e
                          | Inr eq \<Rightarrow>
                              if eq = 0 then Inl (Exception ''float division by zero'')
                              else Inr \<lparr> var_95 = total_value * 1.645 * daily_vol,
                                         var_99 = total_value * 2.326 * daily_vol,
                                         expected_shortfall = total_value * 2.665 * daily_vol,
                                         current_leverage = total_value / eq,
                                         concentration_risk = concentration,
                                         correlation_risk = 0.5 \<rparr>))))"

subsection \<open>Orders and portfolio-level constraints\<close>

text \<open>The engine's limits, as \<^verbatim>\<open>__init__\<close> sets them.\<close>

definition max_position_size :: real where
  "max_position_size = 0.1"

definition max_leverage :: real where
  "max_leverage = 2.0"

record order =
  order_symbol :: string
  quantity :: int
  side :: string
  order_type :: string
  time_in_force :: string
  order_signal :: signal

text \<open>
  \<^verbatim>\<open>
  def apply_risk_constraints(self, orders, risk_metrics):
      if risk_metrics['current_leverage'] > self.max_leverage * 0.8:
          reduction_factor = 0.5
          for order in orders:
              order['quantity'] = int(order['quantity'] * reduction_factor)
      if risk_metrics['concentration_risk'] > 0.3:
          orders = orders[:3]
      orders = [order for order in orders if order['quantity'] > 0]
      return orders
  \<close>
\<close>

definition apply_risk_constraints :: "order list \<Rightarrow> risk_metrics \<Rightarrow> order list" where
  "apply_risk_constraints orders rm =
     (let orders1 =
            (if current_leverage rm > max_leverage * 0.8
             then let reduction_factor = 0.5
                  in map (\<lambda>order. order\<lparr>quantity :=
                            py_int (real_of_int (quantity order) * reduction_factor)\<rparr>) orders
             else orders);
          orders2 = (if concentration_risk rm > 0.3 then take 3 orders1 else orders1)
      in filter (\<lambda>order. quantity order > 0) orders2)"

text \<open>
  \<^verbatim>\<open>
  async def optimize_portfolio(self, signals, current_portfolio):
      orders = []
      account = self.trading_client.get_account()
      buying_power = float(account.buying_power)
      portfolio_value = float(account.equity)
      risk_metrics = await self.calculate_portfolio_risk(current_portfolio)
      high_confidence_signals = {symbol: signal for symbol, signal in signals.items()
                                 if signal['confidence'] > 0.6}
      for symbol, signal in high_confidence_signals.items():
          if signal['direction'] == 0:
              continue
          kelly_fraction = self.calculate_kelly_fraction(
              signal['expected_return'], signal['confidence'])
          position_size = min(kelly_fraction * portfolio_value,
                              self.max_position_size * portfolio_value,
                              buying_power * 0.9)
          if position_size > 100:
              quantity = int(position_size / self.get_current_price(symbol))
              if quantity > 0:
                  orders.append({'symbol': symbol, 'quantity': quantity,
                      'side': 'buy' if signal['direction'] > 0 else 'sell',
                      'type': 'limit', 'time_in_force': 'day', 'signal': signal})
      orders = self.apply_risk_constraints(orders, risk_metrics)
      return orders
  \<close>
  The sizing loop is \<open>size_orders\<close>; the float division raises ZeroDivisionError on a
  zero price.
\<close>

fun size_orders ::
  "broker \<Rightarrow> real \<Rightarrow> real \<Rightarrow> (string \<times> signal) list \<Rightarrow> order list \<Rightarrow> error + order list" where
  "size_orders b portfolio_value bp [] orders = Inr orders"
| "size_orders b portfolio_value bp ((smb, sg) # rest) orders =
     (if direction sg = 0 then size_orders b portfolio_value bp rest orders
      else
        let kelly_fraction = calculate_kelly_fraction (expected_return sg) (confidence sg);
            position_size = min (kelly_fraction * portfolio_value)
                              (min (max_position_size * portfolio_value) (bp * 0.9))
        in if position_size > 100 then
             (let price = risk_get_current_price b smb
              in if price = 0 then Inl (Exception ''float division by zero'')
                 else
                   let qty = py_int (position_size / price)
                   in if qty > 0 then
                        size_orders b portfolio_value bp rest
                          (orders @ [\<lparr> order_symbol = smb, quantity = qty,
                                       side = (if direction sg > 0 then ''buy'' else ''sell''),
                                       order_type = ''limit'', time_in_force = ''day'',
                                       order_signal = sg \<rparr>])
                      else size_orders b portfolio_value bp rest orders)
           else size_orders b portfolio_value bp rest orders)"

definition optimize_portfolio ::
  "broker \<Rightarrow> (string \<times> signal) list \<Rightarrow> 'p \<Rightarrow> error + order list" where
  "optimize_portfolio b signals current_portfolio =
     (case get_account b of
        Inl e \<Rightarrow> Inl e
      | Inr acct \<Rightarrow>
          (case py_float (buying_power acct) of
             Inl e \<Rightarrow> Inl e
           | Inr bp \<Rightarrow>
               (case py_float (equity acct) of
                  Inl e \<Rightarrow> Inl e
                | Inr portfolio_value \<Rightarrow>
                    (case calculate_portfolio_risk b current_portfolio of
                       Inl e \<Rightarrow> Inl e
                     | Inr rm \<Rightarrow>
                         let high_confidence_signals =
                               filter (\<lambda>(smb, sg). confidence sg > 0.6) signals
                         in (case size_orders b portfolio_value bp high_confidence_signals [] of
                               Inl e \<Rightarrow> Inl e
                             | Inr orders \<Rightarrow> Inr (apply_risk_constraints orders rm))))))"

section \<open>ExecutionEngine\<close>

text \<open>
  Result dictionaries are association lists of Python values. The effects of the engine
  are recorded as a trace of events, oldest first: each call of
  \<^verbatim>\<open>trading_client.submit_order\<close> and each \<^verbatim>\<open>asyncio.sleep\<close>. What the brokerage
  answers may depend on what has happened so far, so the environment gives a broker
  for every trace.
\<close>

datatype pyval =
    PStr string
  | PInt int
  | PFloat real
  | PObject string
  | PList "pyval list"
  | PDict "(string \<times> pyval) list"

type_synonym dict = "(string \<times> pyval) list"

datatype event = SubmitOrder order_request | Sleep nat

type_synonym trace = "event list"

text \<open>
  \<^verbatim>\<open>
  def get_current_price(self, symbol):
      try:
          position = self.trading_client.get_position(symbol)
          return float(position.current_price)
      except:
          return 100.0  # Fallback
  \<close>
\<close>

definition exec_get_current_price :: "broker \<Rightarrow> string \<Rightarrow> real" where
  "exec_get_current_price b smb =
     (case get_position b smb of
        Inl e \<Rightarrow> 100.0
      | Inr position \<Rightarrow>
          (case py_float (current_price position) of Inl e \<Rightarrow> 100.0 | Inr v \<Rightarrow> v))"

text \<open>
  \<^verbatim>\<open>
  def select_execution_strategy(self, order):
      if order['signal']['confidence'] > 0.8:
          return 'AGGRESSIVE'
      if order['quantity'] > 1000:
          return 'PASSIVE'
      return 'ADAPTIVE'
  \<close>
\<close>

definition select_execution_strategy :: "order \<Rightarrow> string" where
  "select_execution_strategy order =
     (if confidence (order_signal order) > 0.8 then ''AGGRESSIVE''
      else if quantity order > 1000 then ''PASSIVE''
      else ''ADAPTIVE'')"

text \<open>
  \<^verbatim>\<open>
  async def aggressive_execution(self, order):
      request = MarketOrderRequest(symbol=order['symbol'], qty=order['quantity'],
                                   side=order['side'], time_in_force='day')
      result = self.trading_client.submit_order(request)
      return {'status': 'submitted', 'order_id': result.id,
              'strategy': 'aggressive', 'order': result}
  \<close>
  The broker's answer to a submission is the id of the order object it returns.
\<close>

definition aggressive_execution ::
  "(trace \<Rightarrow> broker) \<Rightarrow> order \<Rightarrow> trace \<Rightarrow> (error + dict) \<times> trace" where
  "aggressive_execution env order t =
     (let request = MarketOrderRequest (order_symbol order) (quantity order) (side order) ''day''
      in case submit_order (env t) request of
           Inl e \<Rightarrow> (Inl e, t @ [SubmitOrder request])
         | Inr oid \<Rightarrow>
             (Inr [(''status'', PStr ''submitted''), (''order_id'', PStr oid),
                   (''strategy'', PStr ''aggressive''), (''order'', PObject oid)],
              t @ [SubmitOrder request]))"

text \<open>
  \<^verbatim>\<open>
  async def passive_execution(self, order):
      current_price = self.get_current_price(order['symbol'])
      if order['side'] == 'buy':
          limit_price = current_price * (1 - 0.0001)
      else:
          limit_price = current_price * (1 + 0.0001)
      request = LimitOrderRequest(symbol=order['symbol'], qty=order['quantity'],
          side=order['side'], time_in_force='day', limit_price=round(limit_price, 2))
      result = self.trading_client.submit_order(request)
      return {'status': 'submitted', 'order_id': result.id, 'strategy': 'passive',
              'limit_price': limit_price, 'order': result}
  \<close>
  \<^verbatim>\<open>round(x, 2)\<close> rounds to two decimals, a tie to the even neighbour.
\<close>

definition py_round :: "real \<Rightarrow> int" where
  "py_round x =
     (let f = \<lfloor>x\<rfloor>; d = x - real_of_int f
      in if d < 1 / 2 then f else if d > 1 / 2 then f + 1 else if even f then f else f + 1)"

definition round2 :: "real \<Rightarrow> real" where
  "round2 x = real_of_int (py_round (x * 100)) / 100"

definition passive_execution ::
  "(trace \<Rightarrow> broker) \<Rightarrow> order \<Rightarrow> trace \<Rightarrow> (error + dict) \<times> trace" where
  "passive_execution env order t =
     (let current_price = exec_get_current_price (env t) (order_symbol order);
          limit_price = (if side order = ''buy'' then current_price * (1 - 0.0001)
                         else current_price * (1 + 0.0001));
          request = LimitOrderRequest (order_symbol order) (quantity order) (side order) ''day''
                      (round2 limit_price)
      in case submit_order (env t) request of
           Inl e \<Rightarrow> (Inl e, t @ [SubmitOrder request])
         | Inr oid \<Rightarrow>
             (Inr [(''status'', PStr ''submitted''), (''order_id'', PStr oid),
                   (''strategy'', PStr ''passive''), (''limit_price'', PFloat limit_price),
                   (''order'', PObject oid)],
              t @ [SubmitOrder request]))"

text \<open>
  \<^verbatim>\<open>
  async def adaptive_execution(self, order):
      chunk_size = max(1, order['quantity'] // 5)
      chunks = []
      remaining = order['quantity']
      while remaining > 0:
          current_chunk = min(chunk_size, remaining)
          chunks.append(current_chunk)
          remaining -= current_chunk
      results = []
      for i, chunk in enumerate(chunks):
          chunk_order = {**order, 'quantity': chunk}
          if i % 2 == 0:
              result = await self.aggressive_execution(chunk_order)
          else:
              result = await self.passive_execution(chunk_order)
          results.append(result)
          if i < len(chunks) - 1:
              await asyncio.sleep(2)
      return {'status': 'submitted', 'strategy': 'adaptive',
              'chunks': len(chunks), 'results': results}
  \<close>
  \<open>split_chunks\<close> is the while loop, for the order quantity \<open>qty\<close> and the quantity
  still \<open>remaining\<close>; \<open>run_chunks\<close> is the for loop, with the index \<open>i\<close> and the number
  \<open>n\<close> of chunks.
\<close>

function split_chunks :: "int \<Rightarrow> int \<Rightarrow> int list" where
  "split_chunks qty remaining =
     (if remaining > 0 then
        let chunk_size = max 1 (qty div 5);
            current_chunk = min chunk_size remaining
        in current_chunk # split_chunks qty (remaining - current_chunk)
      else [])"
  by pat_completeness auto
termination
  by (relation "measure (\<lambda>(qty, remaining). nat remaining)") (auto simp: Let_def)

declare split_chunks.simps [simp del]

fun run_chunks ::
  "(trace \<Rightarrow> broker) \<Rightarrow> order \<Rightarrow> nat \<Rightarrow> nat \<Rightarrow> int list \<Rightarrow> dict list \<Rightarrow> trace \<Rightarrow>
   (error + dict list) \<times> trace" where
  "run_chunks env order n i [] results t = (Inr results, t)"
| "run_chunks env order n i (chunk # rest) results t =
     (let chunk_order = order\<lparr>quantity := chunk\<rparr>;
          attempt = (if i mod 2 = 0 then aggressive_execution env chunk_order t
                     else passive_execution env chunk_order t)
      in case fst attempt of
           Inl e \<Rightarrow> (Inl e, snd attempt)
         | Inr result \<Rightarrow>
             run_chunks env order n (i + 1) rest (results @ [result])
               (if int i < int n - 1 then snd attempt @ [Sleep 2] else snd attempt))"

definition adaptive_execution ::
  "(trace \<Rightarrow> broker) \<Rightarrow> order \<Rightarrow> trace \<Rightarrow> (error + dict) \<times> trace" where
  "adaptive_execution env order t =
     (let chunks = split_chunks (quantity order) (quantity order);
          run = run_chunks env order (length chunks) 0 chunks [] t
      in case fst run of
           Inl e \<Rightarrow> (Inl e, snd run)
         | Inr results \<Rightarrow>
             (Inr [(''status'', PStr ''submitted''), (''strategy'', PStr ''adaptive''),
                   (''chunks'', PInt (int (length chunks))),
                   (''results'', PList (map PDict results))],
              snd run))"

text \<open>
  \<^verbatim>\<open>
  async def execute_order(self, order):
      try:
          execution_strategy = self.select_execution_strategy(order)
          if execution_strategy == 'AGGRESSIVE':
              result = await self.aggressive_execution(order)
          elif execution_strategy == 'PASSIVE':
              result = await self.passive_execution(order)
          else:
              result = await self.adaptive_execution(order)
          return result
      except Exception as e:
          logger.error(f"Execution error for {order['symbol']}: {e}")
          return {'status': 'failed', 'error': str(e)}
  \<close>
  \<open>execute_body\<close> is the body of the \<^verbatim>\<open>try\<close>; logging is not modelled.
\<close>

definition execute_body ::
  "(trace \<Rightarrow> broker) \<Rightarrow> order \<Rightarrow> trace \<Rightarrow> (error + dict) \<times> trace" where
  "execute_body env order t =
     (let execution_strategy = select_execution_strategy order
      in if execution_strategy = ''AGGRESSIVE'' then aggressive_execution env order t
         else if execution_strategy = ''PASSIVE'' then passive_execution env order t
         else adaptive_execution env order t)"

definition execute_order ::
  "(trace \<Rightarrow> broker) \<Rightarrow> order \<Rightarrow> trace \<Rightarrow> (error + dict) \<times> trace" where
  "execute_order env order t =
     (case execute_body env order t of
        (Inr result, t') \<Rightarrow> (Inr result, t')
      | (Inl e, t') \<Rightarrow> (Inr [(''status'', PStr ''failed''), (''error'', PStr (str e))], t'))"

section \<open>ComplianceEngine\<close>

text \<open>
  A \<^verbatim>\<open>datetime\<close> is a count of microseconds of local wall-clock time since
  1970-01-01 00:00 (a Thursday); \<^verbatim>\<open>datetime.now()\<close> is the parameter \<open>now\<close>.
  \<^verbatim>\<open>(a - b).days\<close> is the floor of the difference in days. An ISO time string is
  represented by its count.
\<close>

definition day_us :: int where
  "day_us = 86400000000"

definition timedelta_days :: "int \<Rightarrow> int \<Rightarrow> int" where
  "timedelta_days a b = (a - b) div day_us"

definition weekday :: "int \<Rightarrow> int" where
  "weekday now = (now div day_us + 3) mod 7"

definition second_of_day :: "int \<Rightarrow> int" where
  "second_of_day now = (now div 1000000) mod 86400"

record trade =
  trade_timestamp :: int
  execution :: dict
  market_conditions :: dict

text \<open>
  \<^verbatim>\<open>
  def is_market_hours(self):
      now = datetime.now()
      market_open = now.replace(hour=9, minute=30, second=0)
      market_close = now.replace(hour=16, minute=0, second=0)
      return market_open <= now <= market_close and now.weekday() < 5

  async def capture_market_conditions(self, symbol):
      return {'timestamp': datetime.now().isoformat(), 'symbol': symbol,
              'market_phase': 'regular' if self.is_market_hours() else 'extended',
              'volatility': 'normal'}
  \<close>
  \<^verbatim>\<open>replace\<close> keeps the microseconds, so the comparison is one of whole seconds.
\<close>

definition is_market_hours :: "int \<Rightarrow> bool" where
  "is_market_hours now =
     (9 * 3600 + 30 * 60 \<le> second_of_day now \<and> second_of_day now \<le> 16 * 3600
      \<and> weekday now < 5)"

definition capture_market_conditions :: "pyval \<Rightarrow> int \<Rightarrow> dict" where
  "capture_market_conditions smb now =
     [(''timestamp'', PInt now), (''symbol'', smb),
      (''market_phase'', PStr (if is_market_hours now then ''regular'' else ''extended'')),
      (''volatility'', PStr ''normal'')]"

text \<open>
  \<^verbatim>\<open>
  async def post_trade_surveillance(self, execution):
      self.trade_log.append({
          'timestamp': datetime.now(),
          'execution': execution,
          'market_conditions': await self.capture_market_conditions(execution['symbol'])
      })
      await self.check_manipulation_patterns()
      if self.is_reporting_time():
          await self.generate_regulatory_reports()
  \<close>
  The state is the trade log, a \<^verbatim>\<open>deque(maxlen=10000)\<close>. \<^verbatim>\<open>execution['symbol']\<close>
  raises KeyError when the key is missing, before anything is appended. The
  manipulation check does nothing and the report generation only logs.
\<close>

definition post_trade_surveillance :: "trade list \<Rightarrow> dict \<Rightarrow> int \<Rightarrow> error + trade list" where
  "post_trade_surveillance trade_log execution' now =
     (case map_of execution' ''symbol'' of
        None \<Rightarrow> Inl (Exception ''KeyError: symbol'')
      | Some smb \<Rightarrow>
          Inr (deque_append 10000 trade_log
                 \<lparr> trade_timestamp = now, execution = execution',
                   market_conditions = capture_market_conditions smb now \<rparr>))"

text \<open>
  \<^verbatim>\<open>
  async def is_wash_sale(self, order):
      symbol = order['symbol']
      recent_trades = [trade for trade in self.trade_log
          if trade['execution'].get('symbol') == symbol
          and (datetime.now() - trade['timestamp']).days <= 30]
      for trade in recent_trades:
          if (trade['execution'].get('side') == 'sell' and order['side'] == 'buy'):
              return True
      return False
  \<close>
\<close>

definition is_wash_sale :: "trade list \<Rightarrow> order \<Rightarrow> int \<Rightarrow> bool" where
  "is_wash_sale trade_log order now =
     (let smb = order_symbol order;
          recent_trades =
            filter (\<lambda>trade. map_of (execution trade) ''symbol'' = Some (PStr smb)
                      \<and> timedelta_days now (trade_timestamp trade) \<le> 30) trade_log
      in list_ex (\<lambda>trade. map_of (execution trade) ''side'' = Some (PStr ''sell'')
                    \<and> side order = ''buy'') recent_trades)"

text \<open>
  \<^verbatim>\<open>
  async def is_pattern_day_trader_violation(self, order):
      account = TradingClient(api_key=os.getenv("ALPACA_API_KEY_ID"),
          secret_key=os.getenv("ALPACA_API_SECRET"), paper=True).get_account()
      if float(account.equity) < 25000 and account.pattern_day_trader:
          return True
      return False

  async def exceeds_position_limit(self, order):
      return False

  async def pre_trade_check(self, order):
      violations = []
      if await self.is_pattern_day_trader_violation(order):
          violations.append("Pattern day trading rule violation")
      if await self.exceeds_position_limit(order):
          violations.append("Position concentration limit exceeded")
      if await self.is_wash_sale(order):
          violations.append("Potential wash sale detected")
      return len(violations) == 0, violations
  \<close>
  A global name is looked up in the module's namespace when the call runs.
  \<open>module_names\<close> lists the names the module binds: its imports (lines 5 to 17 and
  1013 to 1014) and its top-level definitions. \<^verbatim>\<open>os\<close> is not among them, so
  evaluating the first argument \<^verbatim>\<open>os.getenv(...)\<close> raises NameError (its message
  is written here without the quotes around the name). Past that point the outcome of
  building a client from the environment and asking it for the account would be
  \<open>lookup\<close>: an account or an exception.
\<close>

definition module_names :: "string list" where
  "module_names =
     [''asyncio'', ''datetime'', ''timedelta'', ''Dict'', ''List'', ''Optional'', ''Tuple'',
      ''np'', ''pd'', ''TradingClient'', ''StockHistoricalDataClient'',
      ''CryptoHistoricalDataClient'', ''OptionHistoricalDataClient'', ''MarketOrderRequest'',
      ''LimitOrderRequest'', ''StockBarsRequest'', ''CryptoBarsRequest'', ''TimeFrame'',
      ''deque'', ''json'', ''logging'', ''logger'', ''AlphaSignalGenerator'',
      ''RiskManagementEngine'', ''ExecutionEngine'', ''MarketDataEngine'', ''ComplianceEngine'',
      ''TradingOrchestrator'', ''FastAPI'', ''HTTPException'', ''BaseModel'', ''app'',
      ''orchestrator'', ''TradingCommand'', ''UniverseUpdate'', ''startup_event'',
      ''control_trading'', ''get_status'', ''update_universe'', ''get_signals'',
      ''get_risk_metrics'']"

definition global_name :: "string \<Rightarrow> error + unit" where
  "global_name n =
     (if n \<in> set module_names then Inr ()
      else Inl (Exception (''name '' @ n @ '' is not defined'')))"

definition is_pattern_day_trader_violation :: "error + account \<Rightarrow> order \<Rightarrow> error + bool" where
  "is_pattern_day_trader_violation lookup order =
     (case global_name ''os'' of
        Inl e \<Rightarrow> Inl e
      | Inr u \<Rightarrow>
          (case lookup of
             Inl e \<Rightarrow> Inl e
           | Inr acct \<Rightarrow>
               (case py_float (equity acct) of
                  Inl e \<Rightarrow> Inl e
                | Inr eq \<Rightarrow> Inr (eq < 25000 \<and> pattern_day_trader acct))))"

definition exceeds_position_limit :: "order \<Rightarrow> bool" where
  "exceeds_position_limit order = False"

definition pre_trade_check ::
  "trade list \<Rightarrow> error + account \<Rightarrow> order \<Rightarrow> int \<Rightarrow> error + bool \<times> string list" where
  "pre_trade_check trade_log lookup order now =
     (case is_pattern_day_trader_violation lookup order of
        Inl e \<Rightarrow> Inl e
      | Inr pdt \<Rightarrow>
          let v1 = (if pdt then [''Pattern day trading rule violation''] else []);
              v2 = (if exceeds_position_limit order
                    then v1 @ [''Position concentration limit exceeded''] else v1);
              violations = (if is_wash_sale trade_log order now
                    then v2 @ [''Potential wash sale detected''] else v2)
          in Inr (length violations = 0, violations))"

section \<open>Predicates used in the properties\<close>

text \<open>The range of a generated signal: confidence in [0.5, 0.9], direction -1, 0 or 1.\<close>

definition signal_in_range :: "signal \<Rightarrow> bool" where
  "signal_in_range s =
     (0.5 \<le> confidence s \<and> confidence s \<le> 0.9 \<and> direction s \<in> {-1, 0, 1})"

text \<open>
  An order respects the sizing caps for equity \<open>pv\<close> and buying power \<open>bp\<close>: its quantity
  is positive and quantity times current price is at most 10% of equity and 90% of
  buying power.
\<close>

definition sized_ok :: "broker \<Rightarrow> real \<Rightarrow> real \<Rightarrow> order \<Rightarrow> bool" where
  "sized_ok b pv bp od =
     (0 < quantity od \<and>
      real_of_int (quantity od) * risk_get_current_price b (order_symbol od)
        \<le> min (0.1 * pv) (0.9 * bp))"

text \<open>Reading a trace: how often the engine slept, and the quantities it submitted.\<close>

definition sleep_count :: "trace \<Rightarrow> nat" where
  "sleep_count t = length (filter (\<lambda>ev. case ev of Sleep d \<Rightarrow> True | SubmitOrder r \<Rightarrow> False) t)"

fun request_qty :: "order_request \<Rightarrow> int" where
  "request_qty (MarketOrderRequest s q sd tif) = q"
| "request_qty (LimitOrderRequest s q sd tif lp) = q"

definition submitted_quantities :: "trace \<Rightarrow> int list" where
  "submitted_quantities t =
     concat (map (\<lambda>ev. case ev of Sleep d \<Rightarrow> [] | SubmitOrder r \<Rightarrow> [request_qty r]) t)"

section \<open>Example inputs\<close>

text \<open>
  An account with 100000 of equity and buying power, no positions (so the price lookup
  falls back to 100), and one long signal for AAPL with confidence 0.7.
\<close>

definition example_account :: account where
  "example_account = \<lparr> equity = Some 100000, cash = Some 100000, buying_power = Some 100000,
     pattern_day_trader = False \<rparr>"

definition example_broker :: broker where
  "example_broker = \<lparr> get_account = Inr example_account, get_all_positions = Inr [],
     get_position = (\<lambda>smb. Inl (Exception ''position does not exist'')),
     submit_order = (\<lambda>req. Inr ''order-1'') \<rparr>"

definition example_signal :: signal where
  "example_signal = \<lparr> direction = 1, confidence = 0.7, expected_return = 0.014,
     holding_period = ''4H'', symbol = ''AAPL'', microstructure = Map.empty,
     technical = Map.empty, timestamp = 0 \<rparr>"

definition example_order :: order where
  "example_order = \<lparr> order_symbol = ''AAPL'', quantity = 100, side = ''buy'',
     order_type = ''limit'', time_in_force = ''day'', order_signal = example_signal \<rparr>"

definition example_metrics :: risk_metrics where
  "example_metrics = \<lparr> var_95 = 0, var_99 = 0, expected_shortfall = 0,
     current_leverage = 1.7, concentration_risk = 0, correlation_risk = 0.5 \<rparr>"

text \<open>A broker that rejects every submission.\<close>

definition rejecting_broker :: broker where
  "rejecting_broker =
     example_broker\<lparr> submit_order := (\<lambda>req. Inl (Exception ''insufficient buying power'')) \<rparr>"

text \<open>An execution record of a sell of AAPL, as a dictionary with symbol and side.\<close>

definition example_sell_execution :: dict where
  "example_sell_execution =
     [(''status'', PStr ''submitted''), (''symbol'', PStr ''AAPL''), (''side'', PStr ''sell'')]"

text \<open>The log after that record is logged at time 0 into an empty log.\<close>

definition example_trade_log :: "trade list" where
  "example_trade_log =
     [\<lparr> trade_timestamp = 0, execution = example_sell_execution,
        market_conditions = capture_market_conditions (PStr ''AAPL'') 0 \<rparr>]"

section \<open>Properties\<close>

subsection \<open>Kelly sizing\<close>

text \<open>
  C1. For every expected return and confidence, the Kelly fraction lies between 0 and
  0.1; it is 0 when the expected return is not positive or the confidence is at most
  0.5; and at confidence 1.0 with a positive expected return it is the cap 0.1.
\<close>

theorem kelly_fraction_bounds:
  "0 \<le> calculate_kelly_fraction er c \<and> calculate_kelly_fraction er c \<le> 0.1
   \<and> (er \<le> 0 \<or> c \<le> 0.5 \<longrightarrow> calculate_kelly_fraction er c = 0)
   \<and> (0 < er \<longrightarrow> calculate_kelly_fraction er 1.0 = 0.1)"
proof -
  have b: "0 \<le> calculate_kelly_fraction er c \<and> calculate_kelly_fraction er c \<le> 0.1"
    unfolding calculate_kelly_fraction_def Let_def by (simp add: min_def max_def)
  have z: "er \<le> 0 \<or> c \<le> 0.5 \<longrightarrow> calculate_kelly_fraction er c = 0"
    unfolding calculate_kelly_fraction_def Let_def by auto
  have t: "0 < er \<longrightarrow> calculate_kelly_fraction er 1.0 = 0.1"
    unfolding calculate_kelly_fraction_def Let_def by simp
  from b z t show ?thesis by blast
qed

theorem kelly_fraction_bounds_witness:
  "calculate_kelly_fraction 0.014 0.5 = 0 \<and> calculate_kelly_fraction (-0.014) 0.7 = 0
   \<and> calculate_kelly_fraction 0.02 1.0 = 0.1
   \<and> 0 \<le> calculate_kelly_fraction 0.014 0.7 \<and> calculate_kelly_fraction 0.014 0.7 \<le> 0.1"
  using kelly_fraction_bounds [of "0.014" "0.5"] kelly_fraction_bounds [of "-0.014" "0.7"]
    kelly_fraction_bounds [of "0.02" "1.0"] kelly_fraction_bounds [of "0.014" "0.7"]
  by simp

subsection \<open>The scoring function\<close>

lemma ml_predict_confidence_range:
  "0.5 \<le> confidence (ml_predict m t) \<and> confidence (ml_predict m t) \<le> 0.9"
  unfolding ml_predict_def Let_def by (simp add: min_def)

lemma ml_predict_direction_range: "direction (ml_predict m t) \<in> {-1, 0, 1}"
  unfolding ml_predict_def Let_def by simp

lemma combined_signal_in_range: "signal_in_range (combined_signal smb m t now)"
  using ml_predict_confidence_range [of m t] ml_predict_direction_range [of m t]
  unfolding signal_in_range_def combined_signal_def Let_def by simp

lemma set_update_subset: "set (AList.update k v al) \<subseteq> insert (k, v) (set al)"
  by (induction al) auto

lemma generate_signals_in_range:
  "\<forall>(k, s) \<in> set signals. signal_in_range s \<Longrightarrow>
   \<forall>(k, s) \<in> set (fst (generate_signals micro tech now universe (signals, history))).
     signal_in_range s"
proof (induction universe arbitrary: signals history)
  case Nil
  then show ?case by simp
next
  case (Cons smb universe)
  show ?case
  proof (cases "micro smb")
    case (Inl e)
    then show ?thesis using Cons by simp
  next
    case (Inr mf)
    note m = this
    show ?thesis
    proof (cases "tech smb")
      case (Inl e)
      then show ?thesis using Cons m by simp
    next
      case (Inr tf)
      have "\<forall>(k, s) \<in> set (AList.update smb (combined_signal smb mf tf now) signals).
              signal_in_range s"
        using set_update_subset [of smb "combined_signal smb mf tf now" signals]
          Cons.prems combined_signal_in_range [of smb mf tf now] by auto
      from Cons.IH [OF this] show ?thesis using m Inr by (simp add: Let_def)
    qed
  qed
qed

text \<open>
  C5, as stated: the expected return of a prediction is its direction times its
  confidence field times 0.02. This fails when all four bullish contributions fire:
  the confidence field is capped at 0.9, the expected return uses the uncapped 1.0.
\<close>

theorem ml_predict_expected_return_counterexample:
  "expected_return (ml_predict [''kyle_lambda'' \<mapsto> Float (-1)]
       [''rsi'' \<mapsto> Float 20, ''macd_signal'' \<mapsto> Float 1])
   \<noteq> real_of_int (direction (ml_predict [''kyle_lambda'' \<mapsto> Float (-1)]
       [''rsi'' \<mapsto> Float 20, ''macd_signal'' \<mapsto> Float 1]))
     * confidence (ml_predict [''kyle_lambda'' \<mapsto> Float (-1)]
       [''rsi'' \<mapsto> Float 20, ''macd_signal'' \<mapsto> Float 1]) * 0.02"
  by (simp add: ml_predict_def get_feature_def Let_def)

text \<open>
  C5, amended: the expected return of a prediction is its direction times its
  confidence field times 0.02, except when all four bullish contributions fire
  (kyle_lambda < 0, vpin < 0.3, rsi < 30, macd_signal > 0); then the direction is 1, the
  confidence field is the cap 0.9 and the expected return is 0.02, from the uncapped
  confidence 1.0.
\<close>

theorem ml_predict_expected_return:
  "(lt (get_feature m ''kyle_lambda'' 0) 0 \<and> lt (get_feature m ''vpin'' 0) 0.3
      \<and> lt (get_feature t ''rsi'' 50) 30 \<and> gt (get_feature t ''macd_signal'' 0) 0
    \<longrightarrow> direction (ml_predict m t) = 1 \<and> confidence (ml_predict m t) = 0.9
        \<and> expected_return (ml_predict m t) = 0.02)
   \<and> (\<not> (lt (get_feature m ''kyle_lambda'' 0) 0 \<and> lt (get_feature m ''vpin'' 0) 0.3
      \<and> lt (get_feature t ''rsi'' 50) 30 \<and> gt (get_feature t ''macd_signal'' 0) 0)
    \<longrightarrow> expected_return (ml_predict m t)
        = real_of_int (direction (ml_predict m t)) * confidence (ml_predict m t) * 0.02)"
  unfolding ml_predict_def Let_def by (simp add: min_def)

theorem ml_predict_expected_return_witness:
  "expected_return (ml_predict [''kyle_lambda'' \<mapsto> Float (-1)]
       [''rsi'' \<mapsto> Float 20, ''macd_signal'' \<mapsto> Float 1]) = 0.02
   \<and> confidence (ml_predict [''kyle_lambda'' \<mapsto> Float (-1)]
       [''rsi'' \<mapsto> Float 20, ''macd_signal'' \<mapsto> Float 1]) = 0.9
   \<and> expected_return (ml_predict Map.empty [''rsi'' \<mapsto> Float 20])
     = real_of_int (direction (ml_predict Map.empty [''rsi'' \<mapsto> Float 20]))
       * confidence (ml_predict Map.empty [''rsi'' \<mapsto> Float 20]) * 0.02"
  using ml_predict_expected_return [of "[''kyle_lambda'' \<mapsto> Float (-1)]"
      "[''rsi'' \<mapsto> Float 20, ''macd_signal'' \<mapsto> Float 1]"]
    ml_predict_expected_return [of Map.empty "[''rsi'' \<mapsto> Float 20]"]
  by (simp add: get_feature_def)

text \<open>
  C10. For every pair of feature dictionaries the prediction's confidence lies in
  [0.5, 0.9] and its direction is -1, 0 or 1; hence so does every signal that
  \<open>generate_signals\<close> puts into its result.
\<close>

theorem signal_confidence_direction_range:
  "0.5 \<le> confidence (ml_predict m t) \<and> confidence (ml_predict m t) \<le> 0.9
   \<and> direction (ml_predict m t) \<in> {-1, 0, 1}
   \<and> (\<forall>(k, s) \<in> set (fst (generate_signals micro tech now universe ([], history))).
        0.5 \<le> confidence s \<and> confidence s \<le> 0.9 \<and> direction s \<in> {-1, 0, 1})"
proof -
  have "\<forall>(k, s) \<in> set (fst (generate_signals micro tech now universe ([], history))).
          signal_in_range s"
    by (rule generate_signals_in_range) simp
  then show ?thesis
    using ml_predict_confidence_range [of m t] ml_predict_direction_range [of m t]
    unfolding signal_in_range_def by blast
qed

theorem signal_confidence_direction_range_witness:
  "confidence (ml_predict [''kyle_lambda'' \<mapsto> Float (-1)] [''rsi'' \<mapsto> Float 20]) = 0.9
   \<and> direction (ml_predict [''kyle_lambda'' \<mapsto> Float (-1)] [''rsi'' \<mapsto> Float 20]) = 1
   \<and> map (\<lambda>(k, s). (k, confidence s, direction s))
        (fst (generate_signals (\<lambda>_. Inr [''kyle_lambda'' \<mapsto> Float (-1)])
               (\<lambda>_. Inr [''rsi'' \<mapsto> Float 20]) 0 [''AAPL''] ([], [])))
      = [(''AAPL'', 0.9, 1)]
   \<and> list_all (\<lambda>(k, s). 0.5 \<le> confidence s \<and> confidence s \<le> 0.9 \<and> direction s \<in> {-1, 0, 1})
        (fst (generate_signals (\<lambda>_. Inr [''kyle_lambda'' \<mapsto> Float (-1)])
               (\<lambda>_. Inr [''rsi'' \<mapsto> Float 20]) 0 [''AAPL''] ([], [])))"
  using signal_confidence_direction_range [of "[''kyle_lambda'' \<mapsto> Float (-1)]"
      "[''rsi'' \<mapsto> Float 20]" "\<lambda>_. Inr [''kyle_lambda'' \<mapsto> Float (-1)]"
      "\<lambda>_. Inr [''rsi'' \<mapsto> Float 20]" 0 "[''AAPL'']" "[]"]
  by (simp add: ml_predict_def combined_signal_def get_feature_def Let_def)

subsection \<open>Technical indicators\<close>

text \<open>
  C9. With fewer samples than it needs, a technical indicator returns its neutral
  value, neither raising nor returning NaN: the 14-period RSI returns 50 on fewer than
  15 prices, the 20-period band position returns 0.5 on fewer than 20 prices, and the
  MACD differential returns 0 on fewer than 26 prices.
\<close>

theorem technical_neutral_values:
  "(length prices < 15 \<longrightarrow> calculate_rsi prices 14 = Float 50)
   \<and> (length prices < 20 \<longrightarrow> calculate_bollinger_position prices 20 = Inr (Float 0.5))
   \<and> (length prices < 26 \<longrightarrow> calculate_macd_signal prices = Float 0)"
  by (simp add: calculate_rsi_def calculate_bollinger_position_def calculate_macd_signal_def)

theorem technical_neutral_values_witness:
  "length [101, 102, 103 :: real] < 15 \<and> calculate_rsi [101, 102, 103] 14 = Float 50
   \<and> calculate_bollinger_position [101, 102, 103] 20 = Inr (Float 0.5)
   \<and> calculate_macd_signal [101, 102, 103] = Float 0
   \<and> calculate_rsi [] 14 = Float 50
   \<and> calculate_bollinger_position [] 20 = Inr (Float 0.5)"
  using technical_neutral_values [of "[101, 102, 103]"] technical_neutral_values [of "[]"]
  by simp

subsection \<open>Portfolio-level constraints\<close>

lemma py_int_half_less: "0 < q \<Longrightarrow> py_int (real_of_int q * 0.5) < q"
  unfolding py_int_def by (simp add: floor_less_iff)

lemma py_int_half_pos: "0 < py_int (real_of_int q * 0.5) \<Longrightarrow> 0 < q \<and> py_int (real_of_int q * 0.5) \<le> q"
  unfolding py_int_def by (auto split: if_splits simp: floor_less_iff le_floor_iff less_ceiling_iff) linarith+

lemma subseq_take_self: "subseq (take n xs) xs"
  by (metis prefix_imp_subseq take_is_prefix)

text \<open>
  C8. When the leverage exceeds 80% of the maximum leverage and every proposed quantity
  is positive, the orders returned by \<open>apply_risk_constraints\<close> come, in order, from
  proposed orders (a subsequence \<open>kept\<close> of them), each unchanged but for its quantity,
  which is strictly less than the proposed one.
\<close>

theorem leverage_scaling_strictly_reduces:
  assumes "current_leverage rm > max_leverage * 0.8" and "\<forall>od\<in>set orders. 0 < quantity od"
  shows "\<exists>kept. subseq kept orders \<and>
     list_all2 (\<lambda>od' od. quantity od' < quantity od \<and> od' = od\<lparr>quantity := quantity od'\<rparr>)
       (apply_risk_constraints orders rm) kept"
proof -
  define halve where "halve = (\<lambda>order :: order. order\<lparr>quantity := py_int (real_of_int (quantity order) * 0.5)\<rparr>)"
  define sel where "sel = (if concentration_risk rm > 0.3 then take 3 orders else orders)"
  define kept where "kept = filter (\<lambda>order. quantity (halve order) > 0) sel"
  have out: "apply_risk_constraints orders rm = map halve kept"
    using assms(1) unfolding apply_risk_constraints_def Let_def kept_def sel_def halve_def
    by (simp add: filter_map take_map comp_def)
  have "subseq sel orders" unfolding sel_def by (simp add: subseq_take_self)
  moreover have "subseq kept sel" unfolding kept_def by simp
  ultimately have s: "subseq kept orders" by (rule subseq_order.order_trans[rotated])
  have "set kept \<subseteq> set orders"
    unfolding kept_def sel_def using set_take_subset [of 3 orders] by auto
  hence pos: "\<forall>od\<in>set kept. 0 < quantity od" using assms(2) by auto
  have "list_all2 (\<lambda>od' od. quantity od' < quantity od \<and> od' = od\<lparr>quantity := quantity od'\<rparr>) (map halve kept) kept"
    using pos py_int_half_less by (simp add: list_all2_map1 list_all2_same halve_def)
  with s out show ?thesis by auto
qed


theorem leverage_scaling_strictly_reduces_witness:
  "max_leverage * 0.8 < current_leverage example_metrics
   \<and> list_all (\<lambda>od. 0 < quantity od) [example_order, example_order\<lparr>quantity := 1\<rparr>]
   \<and> map quantity (apply_risk_constraints
          [example_order, example_order\<lparr>quantity := 1\<rparr>] example_metrics) = [50]
   \<and> (\<exists>kept. subseq kept [example_order, example_order\<lparr>quantity := 1\<rparr>] \<and>
        list_all2 (\<lambda>od' od. quantity od' < quantity od \<and> od' = od\<lparr>quantity := quantity od'\<rparr>)
          (apply_risk_constraints [example_order, example_order\<lparr>quantity := 1\<rparr>]
             example_metrics) kept)"
proof -
  have h1: "max_leverage * 0.8 < current_leverage example_metrics"
    by (simp add: max_leverage_def example_metrics_def)
  have h2: "\<forall>od\<in>set [example_order, example_order\<lparr>quantity := 1\<rparr>]. 0 < quantity od"
    by (simp add: example_order_def)
  have v: "map quantity (apply_risk_constraints
          [example_order, example_order\<lparr>quantity := 1\<rparr>] example_metrics) = [50]"
    by (simp add: apply_risk_constraints_def max_leverage_def example_metrics_def
        example_order_def py_int_def)
  have h3: "list_all (\<lambda>od. 0 < quantity od) [example_order, example_order\<lparr>quantity := 1\<rparr>]"
    by (simp add: example_order_def)
  from leverage_scaling_strictly_reduces [OF h1 h2] h1 h3 v show ?thesis by blast
qed

subsection \<open>Sizing\<close>

lemma floor_mult_le: "0 < (p::real) \<Longrightarrow> 0 \<le> x \<Longrightarrow> real_of_int (py_int (x / p)) * p \<le> x"
proof -
  assume p: "0 < p" and x: "0 \<le> x"
  have "real_of_int \<lfloor>x / p\<rfloor> \<le> x / p" by simp
  then have "real_of_int \<lfloor>x / p\<rfloor> * p \<le> x / p * p" using p by (simp only: mult_le_cancel_right_pos)
  then show ?thesis using p x by (simp add: py_int_def)
qed

lemma size_orders_sized:
  assumes "size_orders b pv bp sigs acc = Inr orders"
    and "\<forall>smb. 0 < risk_get_current_price b smb"
    and "\<forall>od\<in>set acc. sized_ok b pv bp od"
  shows "\<forall>od\<in>set orders. sized_ok b pv bp od"
  using assms
proof (induction sigs arbitrary: acc)
  case Nil
  then show ?case by simp
next
  case (Cons a sigs)
  obtain smb sg where a: "a = (smb, sg)" by (cases a)
  define ps where "ps = min (calculate_kelly_fraction (expected_return sg) (confidence sg) * pv)
                              (min (max_position_size * pv) (bp * 0.9))"
  define price where "price = risk_get_current_price b smb"
  define qty where "qty = py_int (ps / price)"
  define new where "new = \<lparr> order_symbol = smb, quantity = qty,
                                       side = (if direction sg > 0 then ''buy'' else ''sell''),
                                       order_type = ''limit'', time_in_force = ''day'',
                                       order_signal = sg \<rparr>"
  have pr: "0 < price" using Cons.prems(2) unfolding price_def by simp
  have step: "size_orders b pv bp (a # sigs) acc =
      (if direction sg \<noteq> 0 \<and> ps > 100 \<and> qty > 0
       then size_orders b pv bp sigs (acc @ [new]) else size_orders b pv bp sigs acc)"
    using pr unfolding a new_def qty_def price_def ps_def by (simp add: Let_def)
  show ?case
  proof (cases "direction sg \<noteq> 0 \<and> ps > 100 \<and> qty > 0")
    case True
    have eq: "size_orders b pv bp sigs (acc @ [new]) = Inr orders"
      using Cons.prems(1) unfolding step if_P [OF True] .
    have "0 \<le> ps" using True by linarith
    from floor_mult_le [OF pr this] have 1: "real_of_int qty * price \<le> ps"
      unfolding qty_def .
    have "ps \<le> 0.1 * pv" "ps \<le> 0.9 * bp"
      unfolding ps_def max_position_size_def min_def by auto
    with 1 have "real_of_int qty * price \<le> min (0.1 * pv) (0.9 * bp)"
      unfolding min_def by auto
    then have "sized_ok b pv bp new" using True
      unfolding sized_ok_def new_def price_def by simp
    then have "\<forall>od\<in>set (acc @ [new]). sized_ok b pv bp od" using Cons.prems(3) by simp
    from Cons.IH [OF eq Cons.prems(2) this] show ?thesis .
  next
    case False
    have eq: "size_orders b pv bp sigs acc = Inr orders"
      using Cons.prems(1) unfolding step if_not_P [OF False] .
    from Cons.IH [OF eq Cons.prems(2) Cons.prems(3)] show ?thesis .
  qed
qed

lemma apply_risk_constraints_origin:
  assumes "od' \<in> set (apply_risk_constraints orders rm)"
  shows "\<exists>od\<in>set orders. order_symbol od' = order_symbol od \<and> 0 < quantity od' \<and> quantity od' \<le> quantity od"
proof -
  define halve where
    "halve = (\<lambda>order :: order. order\<lparr>quantity := py_int (real_of_int (quantity order) * 0.5)\<rparr>)"
  define orders1 where
    "orders1 = (if current_leverage rm > max_leverage * 0.8 then map halve orders else orders)"
  define orders2 where
    "orders2 = (if concentration_risk rm > 0.3 then take 3 orders1 else orders1)"
  have out: "apply_risk_constraints orders rm = filter (\<lambda>order. quantity order > 0) orders2"
    unfolding apply_risk_constraints_def Let_def orders2_def orders1_def halve_def by simp
  have "set orders2 \<subseteq> set orders1"
    unfolding orders2_def using set_take_subset [of 3 orders1] by simp
  with assms out have in1: "od' \<in> set orders1" and pos: "0 < quantity od'" by auto
  show ?thesis
  proof (cases "current_leverage rm > max_leverage * 0.8")
    case True
    with in1 obtain od where od: "od \<in> set orders" "od' = halve od"
      unfolding orders1_def by auto
    from pos od(2) have "0 < py_int (real_of_int (quantity od) * 0.5)"
      unfolding halve_def by simp
    from py_int_half_pos [OF this] have "0 < quantity od" "quantity od' \<le> quantity od"
      using od(2) unfolding halve_def by simp_all
    moreover have "order_symbol od' = order_symbol od" using od(2) unfolding halve_def by simp
    ultimately show ?thesis using od(1) pos by blast
  next
    case False
    with in1 pos show ?thesis unfolding orders1_def by auto
  qed
qed

text \<open>
  C2. When the account has positive equity and buying power and every current price is
  positive, each order returned by \<open>optimize_portfolio\<close> has quantity times current
  price at most the minimum of 10% of equity and the buying power.
\<close>

theorem optimize_portfolio_respects_caps:
  assumes "optimize_portfolio b signals pf = Inr orders"
    and "get_account b = Inr acct" and "equity acct = Some eq" and "buying_power acct = Some bp"
    and "0 < eq" and "0 < bp" and "\<forall>smb. 0 < risk_get_current_price b smb"
    and "od \<in> set orders"
  shows "real_of_int (quantity od) * risk_get_current_price b (order_symbol od) \<le> min (0.1 * eq) bp"
proof -
  obtain rm sized where s: "size_orders b eq bp (filter (\<lambda>(smb, sg). confidence sg > 0.6) signals) [] = Inr sized"
    and o: "orders = apply_risk_constraints sized rm"
    using assms(1-4) unfolding optimize_portfolio_def py_float_def
    by (auto simp: Let_def split: sum.splits)
  have "\<forall>x\<in>set sized. sized_ok b eq bp x"
    by (rule size_orders_sized [OF s assms(7)]) simp
  moreover obtain x where x: "x \<in> set sized" "order_symbol od = order_symbol x" "0 < quantity od" "quantity od \<le> quantity x"
    using apply_risk_constraints_origin [of od sized rm] assms(8) o by auto
  ultimately have ok: "sized_ok b eq bp x" by simp
  have "real_of_int (quantity od) * risk_get_current_price b (order_symbol od)
      \<le> real_of_int (quantity x) * risk_get_current_price b (order_symbol x)"
    using x assms(7) by (simp add: mult_right_mono less_imp_le)
  also have "\<dots> \<le> min (0.1 * eq) (0.9 * bp)" using ok unfolding sized_ok_def by simp
  also have "\<dots> \<le> min (0.1 * eq) bp" using assms(6) unfolding min_def by auto
  finally show ?thesis .
qed

lemma example_price: "risk_get_current_price example_broker smb = 100"
  by (simp add: risk_get_current_price_def example_broker_def)

lemma example_optimize:
  "optimize_portfolio example_broker [(''AAPL'', example_signal)] () = Inr [example_order]"
  by (simp add: optimize_portfolio_def example_broker_def example_account_def py_float_def
      calculate_portfolio_risk_def example_signal_def calculate_kelly_fraction_def Let_def
      max_position_size_def risk_get_current_price_def py_int_def apply_risk_constraints_def
      max_leverage_def example_order_def)

theorem optimize_portfolio_respects_caps_witness:
  "optimize_portfolio example_broker [(''AAPL'', example_signal)] () = Inr [example_order]
   \<and> real_of_int (quantity example_order)
       * risk_get_current_price example_broker (order_symbol example_order)
      \<le> min (0.1 * 100000) 100000"
  using optimize_portfolio_respects_caps [of example_broker "[(''AAPL'', example_signal)]" "()"
      "[example_order]" example_account 100000 100000 example_order]
    example_optimize example_price
  by (simp add: example_broker_def example_account_def)

subsection \<open>Adaptive execution\<close>

lemma split_23: "split_chunks 23 23 = [4, 4, 4, 4, 4, 3]"
  by (simp add: split_chunks.simps [of 23] Let_def split_chunks.simps [of _ 0])

lemma split_sum: "0 \<le> r \<Longrightarrow> sum_list (split_chunks q r) = r"
proof (induction q r rule: split_chunks.induct)
  case (1 qty remaining)
  show ?case
  proof (cases "remaining > 0")
    case True
    then have "0 \<le> remaining - min (max 1 (qty div 5)) remaining" by auto
    from 1(1) [OF True refl refl this] True show ?thesis
      by (subst split_chunks.simps) (simp add: Let_def)
  next
    case False
    with 1(2) show ?thesis by (subst split_chunks.simps) simp
  qed
qed

text \<open>
  C3, as stated: adaptive execution of a 23-unit order submits the chunks
  [5, 5, 5, 5, 3] and sleeps 4 times. With a broker that accepts every order it
  submits other chunks and does not sleep 4 times.
\<close>

theorem adaptive_execution_23_counterexample:
  "split_chunks 23 23 \<noteq> [5, 5, 5, 5, 3]
   \<and> sleep_count (snd (adaptive_execution (\<lambda>t. example_broker) (example_order\<lparr>quantity := 23\<rparr>) [])) \<noteq> 4
   \<and> submitted_quantities (snd (adaptive_execution (\<lambda>t. example_broker) (example_order\<lparr>quantity := 23\<rparr>) [])) \<noteq> [5, 5, 5, 5, 3]"
  by (simp add: split_23 adaptive_execution_def Let_def aggressive_execution_def passive_execution_def
      example_broker_def example_order_def sleep_count_def submitted_quantities_def)

text \<open>
  C3, amended: with a broker that accepts every submission, adaptive execution of an
  order of quantity 23 splits it into the 6 chunks [4, 4, 4, 4, 4, 3] (the chunk size is
  23 div 5 = 4), reports 6 chunks, submits these quantities in this order, sleeps
  exactly 5 times, and ends with a submission, not a sleep.
\<close>

theorem adaptive_execution_23:
  assumes "\<forall>t req. \<exists>oid. submit_order (env t) req = Inr oid" and "quantity order = 23"
  shows "split_chunks (quantity order) (quantity order) = [4, 4, 4, 4, 4, 3]
    \<and> (\<exists>res. fst (adaptive_execution env order t0) = Inr res \<and> map_of res ''chunks'' = Some (PInt 6))
    \<and> submitted_quantities (snd (adaptive_execution env order t0)) = submitted_quantities t0 @ [4, 4, 4, 4, 4, 3]
    \<and> sleep_count (snd (adaptive_execution env order t0)) = sleep_count t0 + 5
    \<and> (\<exists>r. last (snd (adaptive_execution env order t0)) = SubmitOrder r)"
proof -
  from assms(1) obtain f where f: "\<And>t req. submit_order (env t) req = Inr (f t req)" by metis
  show ?thesis
    by (simp add: assms(2) split_23 adaptive_execution_def Let_def aggressive_execution_def
        passive_execution_def f sleep_count_def submitted_quantities_def)
qed

theorem adaptive_execution_23_witness:
  "(\<forall>t req. \<exists>oid. submit_order ((\<lambda>t. example_broker) t) req = Inr oid)
   \<and> quantity (example_order\<lparr>quantity := 23\<rparr>) = 23
   \<and> submitted_quantities
        (snd (adaptive_execution (\<lambda>t. example_broker) (example_order\<lparr>quantity := 23\<rparr>) []))
       = [4, 4, 4, 4, 4, 3]
   \<and> sleep_count
        (snd (adaptive_execution (\<lambda>t. example_broker) (example_order\<lparr>quantity := 23\<rparr>) []))
       = 5"
proof -
  have h1: "\<forall>t req. \<exists>oid. submit_order ((\<lambda>t. example_broker) t) req = Inr oid"
    by (simp add: example_broker_def)
  have h2: "quantity (example_order\<lparr>quantity := 23\<rparr>) = 23" by simp
  from adaptive_execution_23 [OF h1 h2, of "[]"] h1 h2 show ?thesis
    by (simp add: sleep_count_def submitted_quantities_def)
qed

subsection \<open>Failure isolation of execution\<close>

lemma execute_order_cases:
  "execute_order env order t =
     (case fst (execute_body env order t) of
        Inr result \<Rightarrow> (Inr result, snd (execute_body env order t))
      | Inl e \<Rightarrow> (Inr [(''status'', PStr ''failed''), (''error'', PStr (str e))],
                   snd (execute_body env order t)))"
  unfolding execute_order_def by (cases "execute_body env order t") (auto split: sum.splits)

lemma aggressive_fails:
  "submit_order (env t) (MarketOrderRequest (order_symbol order) (quantity order) (side order) ''day'') = Inl e
   \<Longrightarrow> fst (aggressive_execution env order t) = Inl e"
  by (simp add: aggressive_execution_def Let_def)

lemma passive_fails:
  "\<forall>req. submit_order (env t) req = Inl e \<Longrightarrow> fst (passive_execution env order t) = Inl e"
  by (simp add: passive_execution_def Let_def)

lemma adaptive_fails:
  assumes "\<forall>req. submit_order (env t) req = Inl e" and "0 < quantity order"
  shows "fst (adaptive_execution env order t) = Inl e"
proof -
  have "split_chunks (quantity order) (quantity order) =
      min (max 1 (quantity order div 5)) (quantity order)
      # split_chunks (quantity order)
          (quantity order - min (max 1 (quantity order div 5)) (quantity order))"
    using assms(2) by (subst split_chunks.simps) (simp add: Let_def)
  then obtain c rest where c: "split_chunks (quantity order) (quantity order) = c # rest"
    by blast
  have "fst (aggressive_execution env (order\<lparr>quantity := c\<rparr>) t) = Inl e"
    using assms(1) by (simp add: aggressive_execution_def Let_def)
  then have "fst (run_chunks env order (length (c # rest)) 0 (c # rest) [] t) = Inl e"
    by (simp add: Let_def)
  then show ?thesis unfolding adaptive_execution_def Let_def c by simp
qed

text \<open>
  C6. \<open>execute_order\<close> never raises: for every environment, order and trace it returns
  a result. Whenever its body raises \<open>e\<close>, the result is the dictionary with status
  \<open>failed\<close> and the error text of \<open>e\<close>; in particular, when the broker rejects every
  submission with \<open>e\<close> and the quantity is positive, the result is that dictionary.
\<close>

theorem execute_order_never_raises:
  "(\<exists>r t'. execute_order env order t = (Inr r, t'))
   \<and> (\<forall>e t'. execute_body env order t = (Inl e, t') \<longrightarrow>
         execute_order env order t
           = (Inr [(''status'', PStr ''failed''), (''error'', PStr (str e))], t'))
   \<and> ((\<forall>req. submit_order (env t) req = Inl e) \<and> 0 < quantity order \<longrightarrow>
         fst (execute_order env order t)
           = Inr [(''status'', PStr ''failed''), (''error'', PStr (str e))])"
proof (intro conjI)
  show "\<exists>r t'. execute_order env order t = (Inr r, t')"
    unfolding execute_order_cases by (cases "fst (execute_body env order t)") auto
  show "\<forall>e t'. execute_body env order t = (Inl e, t') \<longrightarrow>
         execute_order env order t
           = (Inr [(''status'', PStr ''failed''), (''error'', PStr (str e))], t')"
    unfolding execute_order_def by simp
  show "(\<forall>req. submit_order (env t) req = Inl e) \<and> 0 < quantity order \<longrightarrow>
         fst (execute_order env order t)
           = Inr [(''status'', PStr ''failed''), (''error'', PStr (str e))]"
  proof
    assume a: "(\<forall>req. submit_order (env t) req = Inl e) \<and> 0 < quantity order"
    then have "fst (execute_body env order t) = Inl e"
      unfolding execute_body_def Let_def
      using aggressive_fails [of env t order e] passive_fails [of env t e order]
        adaptive_fails [of env t e order] by auto
    then show "fst (execute_order env order t)
           = Inr [(''status'', PStr ''failed''), (''error'', PStr (str e))]"
      unfolding execute_order_cases by simp
  qed
qed

theorem execute_order_never_raises_witness:
  "(\<forall>req. submit_order ((\<lambda>t. rejecting_broker) []) req = Inl (Exception ''insufficient buying power''))
   \<and> 0 < quantity example_order
   \<and> execute_order (\<lambda>t. rejecting_broker) example_order []
       = (Inr [(''status'', PStr ''failed''), (''error'', PStr ''insufficient buying power'')],
          [SubmitOrder (MarketOrderRequest ''AAPL'' 20 ''buy'' ''day'')])"
  using execute_order_never_raises [of "\<lambda>t. rejecting_broker" example_order "[]" "Exception ''insufficient buying power''"]
  by (simp add: rejecting_broker_def example_order_def example_broker_def execute_order_def
      execute_body_def select_execution_strategy_def example_signal_def adaptive_execution_def
      split_chunks.simps [of 100] aggressive_execution_def Let_def)

subsection \<open>Failures of the brokerage\<close>

text \<open>
  C7, as stated: the current-price lookup never puts a constant in the place of a
  failed brokerage call. Here the position lookup raises and both lookups return 100.
\<close>

theorem get_current_price_fallback_counterexample:
  "get_position example_broker ''AAPL'' = Inl (Exception ''position does not exist'')
   \<and> risk_get_current_price example_broker ''AAPL'' = 100
   \<and> exec_get_current_price example_broker ''AAPL'' = 100"
  by (simp add: example_broker_def risk_get_current_price_def exec_get_current_price_def)

text \<open>
  C7, amended: a failure of the account call is raised by \<open>optimize_portfolio\<close> and a
  failure of the positions call by \<open>calculate_portfolio_risk\<close>; but the current-price
  lookup of both engines returns the constant 100 when the position call raises or the
  position has no price, and the position's current price otherwise.
\<close>

theorem get_current_price_fallback:
  "(get_position b smb = Inl e \<longrightarrow>
      risk_get_current_price b smb = 100 \<and> exec_get_current_price b smb = 100)
   \<and> (get_position b smb = Inr p \<and> current_price p = None \<longrightarrow>
      risk_get_current_price b smb = 100 \<and> exec_get_current_price b smb = 100)
   \<and> (get_position b smb = Inr p \<and> current_price p = Some v \<longrightarrow>
      risk_get_current_price b smb = v \<and> exec_get_current_price b smb = v)
   \<and> (get_account b = Inl e \<longrightarrow> optimize_portfolio b signals pf = Inl e)
   \<and> (get_all_positions b = Inl e \<longrightarrow> calculate_portfolio_risk b pf = Inl e)"
  by (auto simp: risk_get_current_price_def exec_get_current_price_def py_float_def
      optimize_portfolio_def calculate_portfolio_risk_def)

theorem get_current_price_fallback_witness:
  "get_position example_broker ''AAPL'' = Inl (Exception ''position does not exist'')
   \<and> risk_get_current_price example_broker ''AAPL'' = 100
   \<and> exec_get_current_price example_broker ''AAPL'' = 100
   \<and> optimize_portfolio (example_broker\<lparr>get_account := Inl (Exception ''timeout'')\<rparr>)
         [(''AAPL'', example_signal)] () = Inl (Exception ''timeout'')
   \<and> risk_get_current_price
         (example_broker\<lparr>get_position := (\<lambda>smb. Inr \<lparr> position_symbol = smb,
            market_value = Some 1500, current_price = Some 150 \<rparr>)\<rparr>) ''AAPL'' = 150"
  using get_current_price_fallback [of example_broker "''AAPL''"
      "Exception ''position does not exist''"
      "\<lparr> position_symbol = ''AAPL'', market_value = Some 1500, current_price = Some 150 \<rparr>" 150 "[]" "()"]
    get_current_price_fallback [of "example_broker\<lparr>get_account := Inl (Exception ''timeout'')\<rparr>"
      "''AAPL''" "Exception ''timeout''"
      "\<lparr> position_symbol = ''AAPL'', market_value = Some 1500, current_price = Some 150 \<rparr>" 150 "[(''AAPL'', example_signal)]" "()"]
    get_current_price_fallback [of "example_broker\<lparr>get_position := (\<lambda>smb. Inr \<lparr> position_symbol = smb,
            market_value = Some 1500, current_price = Some 150 \<rparr>)\<rparr>" "''AAPL''" "Exception ''timeout''"
      "\<lparr> position_symbol = ''AAPL'', market_value = Some 1500, current_price = Some 150 \<rparr>"
      150 "[]" "()"]
  by (simp add: example_broker_def)

subsection \<open>Wash-sale check\<close>

lemma in_deque_append: "0 < n \<Longrightarrow> x \<in> set (deque_append n xs x)"
  unfolding deque_append_def by (cases xs) auto

lemma deque_append_subset: "set (deque_append n xs x) \<subseteq> insert x (set xs)"
  unfolding deque_append_def by (cases xs) auto

lemma is_wash_sale_iff:
  "is_wash_sale lg order now \<longleftrightarrow>
     (\<exists>tr\<in>set lg. map_of (execution tr) ''symbol'' = Some (PStr (order_symbol order))
        \<and> timedelta_days now (trade_timestamp tr) \<le> 30
        \<and> map_of (execution tr) ''side'' = Some (PStr ''sell'') \<and> side order = ''buy'')"
  unfolding is_wash_sale_def Let_def list_ex_iff by auto

text \<open>
  The wash-sale check on its own. When a sell of \<open>x\<close> is logged at time \<open>T\<close> into a log
  that holds no sell of \<open>x\<close>, a buy of \<open>x\<close> proposed at time \<open>now\<close> is flagged exactly when
  \<open>(now - T).days \<le> 30\<close>: at \<open>T\<close> + 15 days and until the last microsecond of the 31st
  day, and neither at \<open>T\<close> + 31 days nor at \<open>T\<close> + 40 days.
\<close>

lemma wash_sale_boundary:
  assumes "map_of ex ''symbol'' = Some (PStr x)" and "map_of ex ''side'' = Some (PStr ''sell'')"
    and "order_symbol order = x" and "side order = ''buy''"
    and "\<not> list_ex (\<lambda>tr. map_of (execution tr) ''symbol'' = Some (PStr x)
                  \<and> map_of (execution tr) ''side'' = Some (PStr ''sell'')) lg"
  shows "\<exists>lg'. post_trade_surveillance lg ex T = Inr lg'
     \<and> (\<forall>now. is_wash_sale lg' order now \<longleftrightarrow> timedelta_days now T \<le> 30)"
proof -
  define entry where "entry = \<lparr> trade_timestamp = T, execution = ex,
                   market_conditions = capture_market_conditions (PStr x) T \<rparr>"
  define lg' where "lg' = deque_append 10000 lg entry"
  have p: "post_trade_surveillance lg ex T = Inr lg'"
    unfolding post_trade_surveillance_def lg'_def entry_def using assms(1) by simp
  have mem: "entry \<in> set lg'" unfolding lg'_def by (rule in_deque_append) simp
  have sub: "set lg' \<subseteq> insert entry (set lg)" unfolding lg'_def by (rule deque_append_subset)
  have old: "\<not> (map_of (execution tr) ''symbol'' = Some (PStr x)
                \<and> map_of (execution tr) ''side'' = Some (PStr ''sell''))" if "tr \<in> set lg" for tr
    using assms(5) that unfolding list_ex_iff by blast
  have "is_wash_sale lg' order now \<longleftrightarrow> timedelta_days now T \<le> 30" for now
  proof
    assume "is_wash_sale lg' order now"
    then obtain tr where tr: "tr \<in> set lg'"
      "map_of (execution tr) ''symbol'' = Some (PStr x)"
      "timedelta_days now (trade_timestamp tr) \<le> 30"
      "map_of (execution tr) ''side'' = Some (PStr ''sell'')"
      unfolding is_wash_sale_iff assms(3) by blast
    with sub old have "tr = entry" by blast
    with tr(3) show "timedelta_days now T \<le> 30" unfolding entry_def by simp
  next
    assume "timedelta_days now T \<le> 30"
    then show "is_wash_sale lg' order now"
      unfolding is_wash_sale_iff using mem assms(1-4)
      by (auto simp: entry_def intro!: bexI [of _ entry])
  qed
  with p show ?thesis by blast
qed

lemma wash_sale_days:
  "timedelta_days (T + 15 * day_us) T \<le> 30"
  "timedelta_days (T + 31 * day_us - 1) T \<le> 30"
  "\<not> timedelta_days (T + 31 * day_us) T \<le> 30"
  "\<not> timedelta_days (T + 40 * day_us) T \<le> 30"
  unfolding timedelta_days_def day_us_def by simp_all

lemma pre_trade_check_name_error:
  "pre_trade_check lg lookup order now = Inl (Exception ''name os is not defined'')"
  by (simp add: pre_trade_check_def is_pattern_day_trader_violation_def global_name_def
      module_names_def)

text \<open>
  C4. The property: with a sell of an instrument logged at time \<open>T\<close>, the pre-trade check
  flags a buy of it proposed at \<open>T\<close> + 15 days as a wash sale and does not flag one
  proposed at \<open>T\<close> + 40 days. The program does not do this. For the sell of AAPL logged
  at time 0, the wash-sale check alone flags the buy at 15 days and not at 40 days, but
  \<open>pre_trade_check\<close> returns no verdict at all: for this and for every other log, order
  and time it raises NameError in its first step, before the wash-sale check is reached.
\<close>

theorem pre_trade_check_raises_before_wash_sale:
  "post_trade_surveillance [] example_sell_execution 0 = Inr example_trade_log
   \<and> is_wash_sale example_trade_log example_order (0 + 15 * day_us)
   \<and> \<not> is_wash_sale example_trade_log example_order (0 + 40 * day_us)
   \<and> pre_trade_check example_trade_log lookup example_order (0 + 15 * day_us)
       = Inl (Exception ''name os is not defined'')
   \<and> pre_trade_check lg lookup order now = Inl (Exception ''name os is not defined'')"
proof -
  have l: "post_trade_surveillance [] example_sell_execution 0 = Inr example_trade_log"
    by (simp add: post_trade_surveillance_def example_sell_execution_def example_trade_log_def
        deque_append_def)
  have w15: "is_wash_sale example_trade_log example_order (0 + 15 * day_us)"
    by (simp add: is_wash_sale_def example_trade_log_def example_sell_execution_def
        example_order_def timedelta_days_def day_us_def)
  have w40: "\<not> is_wash_sale example_trade_log example_order (0 + 40 * day_us)"
    by (simp add: is_wash_sale_def example_trade_log_def example_sell_execution_def
        example_order_def timedelta_days_def day_us_def)
  from l w15 w40 pre_trade_check_name_error show ?thesis by simp
qed

theorem pre_trade_check_raises_before_wash_sale_witness:
  "is_wash_sale example_trade_log example_order (0 + 15 * day_us)
   \<and> pre_trade_check example_trade_log (Inr example_account) example_order (0 + 15 * day_us)
       = Inl (Exception ''name os is not defined'')
   \<and> pre_trade_check example_trade_log (Inr example_account) example_order (0 + 40 * day_us)
       = Inl (Exception ''name os is not defined'')"
  using pre_trade_check_raises_before_wash_sale [of "Inr example_account" example_trade_log
      example_order "0 + 40 * day_us"]
  by simp

text \<open>
  The dictionaries that \<open>execute_order\<close> returns have no key \<^verbatim>\<open>symbol\<close>, so
  \<open>post_trade_surveillance\<close> raises KeyError on each of them and logs nothing: the
  log entries of the property above come from records that carry symbol and side.
\<close>

lemma aggressive_no_symbol:
  "aggressive_execution env order t = (Inr r, t') \<Longrightarrow> map_of r ''symbol'' = None"
  unfolding aggressive_execution_def Let_def by (auto split: sum.splits)

lemma passive_no_symbol:
  "passive_execution env order t = (Inr r, t') \<Longrightarrow> map_of r ''symbol'' = None"
  unfolding passive_execution_def Let_def by (auto split: sum.splits)

lemma adaptive_no_symbol:
  "adaptive_execution env order t = (Inr r, t') \<Longrightarrow> map_of r ''symbol'' = None"
  unfolding adaptive_execution_def Let_def by (auto split: sum.splits)

lemma execute_order_no_symbol:
  assumes "execute_order env order t = (Inr r, t')"
  shows "map_of r ''symbol'' = None"
proof (cases "execute_body env order t")
  case (Pair a t'')
  show ?thesis
  proof (cases a)
    case (Inl e)
    with Pair assms show ?thesis unfolding execute_order_def by auto
  next
    case (Inr res)
    with Pair assms have "execute_body env order t = (Inr r, t')"
      unfolding execute_order_def by auto
    then show ?thesis
      unfolding execute_body_def Let_def
      using aggressive_no_symbol passive_no_symbol adaptive_no_symbol
      by (auto split: if_splits)
  qed
qed

lemma execution_results_are_not_logged:
  "execute_order env order t = (Inr r, t') \<Longrightarrow>
   post_trade_surveillance lg r now = Inl (Exception ''KeyError: symbol'')"
  using execute_order_no_symbol [of env order t r t']
  by (simp add: post_trade_surveillance_def)


end
